theory Spec2Isabelle
  imports Complex_Main
begin

section \<open>The Go values the package works on\<close>

text \<open>
  The package wraps \<^verbatim>\<open>http.Handler\<close> values. A handler is run on a response writer
  and a request, may change the state of the process around it (clock, random source,
  whatever a test double records), and either returns or panics. The embedding passes
  the response and that environment explicitly and returns the outcome with them, so a
  panic that follows partial writes keeps what was written.
\<close>

datatype error = ErrNilInjector | ErrInvalidPercent | ErrInvalidHTTPCode

datatype panic_value =
    ErrAbortHandler
  | NilPointerDereference
  | IndexOutOfRange
  | IntnInvalidArgument
  | OtherPanic string

datatype outcome = Returned | Panicked panic_value

text \<open>
  A \<^verbatim>\<open>float32\<close> is only ever compared here (\<^verbatim>\<open><\<close>, \<^verbatim>\<open>>\<close>, \<^verbatim>\<open><=\<close>), never
  computed with, so the finite values are read as the rationals they denote. The two
  infinities and NaN are values of the Go type too and are kept apart: every comparison
  with NaN is false.
\<close>

datatype float32 = Fin rat | PosInf | NegInf | NaN

fun f32_less :: "float32 \<Rightarrow> float32 \<Rightarrow> bool" where
  "f32_less NaN y = False"
| "f32_less x NaN = False"
| "f32_less (Fin a) (Fin b) = (a < b)"
| "f32_less (Fin a) PosInf = True"
| "f32_less (Fin a) NegInf = False"
| "f32_less PosInf y = False"
| "f32_less NegInf NegInf = False"
| "f32_less NegInf y = True"

fun f32_le :: "float32 \<Rightarrow> float32 \<Rightarrow> bool" where
  "f32_le NaN y = False"
| "f32_le x NaN = False"
| "f32_le (Fin a) (Fin b) = (a \<le> b)"
| "f32_le (Fin a) PosInf = True"
| "f32_le (Fin a) NegInf = False"
| "f32_le PosInf PosInf = True"
| "f32_le PosInf y = False"
| "f32_le NegInf y = True"

text \<open>
  The tags that the reporter-aware injectors attach to the context of a request. The
  source names three of them; their declarations are not among the source files.
\<close>

datatype ContextValue =
    ContextValueChainInjector
  | ContextValueRandomInjector
  | ContextValueSlowInjector

record request =
  path :: string
  ctxValues :: "ContextValue list"

text \<open>
  The response writer, as a recorder: the header map, the status line once it has been
  written, and the body bytes written so far.
\<close>

record response =
  header :: "(string \<times> string) list"
  status :: "int option"
  body :: string

text \<open>
  The environment of the process: a clock in nanoseconds, the global random source of
  \<^verbatim>\<open>math/rand\<close> as the sequence of uniform variates in \<open>[0, 1)\<close> that it will hand out
  and the position reached in it, and a trace that test doubles append to.
\<close>

datatype event = Slept int | Reported string | Served string

record env =
  clock :: int
  rand_src :: "nat \<Rightarrow> rat"
  rand_pos :: nat
  trace :: "event list"

type_synonym handler = "response \<Rightarrow> request \<Rightarrow> env \<Rightarrow> outcome \<times> response \<times> env"

type_synonym middleware = "handler \<Rightarrow> handler"

text \<open>
  \<^verbatim>\<open>Injector\<close> is an interface whose one method used by the constructors and by the
  gate is \<^verbatim>\<open>Handler(next http.Handler) http.Handler\<close>. A non-nil interface value is
  represented by that method; the nil interface value is \<open>None\<close>. A nil pointer of a
  concrete injector type stored in the interface is not the nil interface: it is the
  method of that type applied to the nil receiver.
\<close>

type_synonym Injector = middleware

subsection \<open>Library functions the package calls\<close>

text \<open>
  \<^verbatim>\<open>next.ServeHTTP(w, r)\<close> runs the handler. \<^verbatim>\<open>http.HandlerFunc(f)\<close> is the handler
  whose \<^verbatim>\<open>ServeHTTP\<close> calls \<^verbatim>\<open>f\<close>. No function of the package compares a handler with
  nil; a nil handler panics when it is served, so it is the handler
  \<open>\<lambda>w r e. (Panicked NilPointerDereference, w, e)\<close>.
\<close>

definition ServeHTTP :: "handler \<Rightarrow> response \<Rightarrow> request \<Rightarrow> env \<Rightarrow> outcome \<times> response \<times> env" where
  "ServeHTTP h w r e = h w r e"

definition HandlerFunc :: "(response \<Rightarrow> request \<Rightarrow> env \<Rightarrow> outcome \<times> response \<times> env) \<Rightarrow> handler" where
  "HandlerFunc f = f"

text \<open>
  \<^verbatim>\<open>http.StatusText\<close> of \<^verbatim>\<open>net/http\<close>: the canonical reason phrase of a status code,
  the empty string for a code it does not know.
\<close>

definition statusText_table :: "(int \<times> string) list" where
  "statusText_table =
    [(100, ''Continue''), (101, ''Switching Protocols''), (102, ''Processing''),
     (103, ''Early Hints''),
     (200, ''OK''), (201, ''Created''), (202, ''Accepted''),
     (203, ''Non-Authoritative Information''), (204, ''No Content''),
     (205, ''Reset Content''), (206, ''Partial Content''), (207, ''Multi-Status''),
     (208, ''Already Reported''), (226, ''IM Used''),
     (300, ''Multiple Choices''), (301, ''Moved Permanently''), (302, ''Found''),
     (303, ''See Other''), (304, ''Not Modified''), (305, ''Use Proxy''),
     (307, ''Temporary Redirect''), (308, ''Permanent Redirect''),
     (400, ''Bad Request''), (401, ''Unauthorized''), (402, ''Payment Required''),
     (403, ''Forbidden''), (404, ''Not Found''), (405, ''Method Not Allowed''),
     (406, ''Not Acceptable''), (407, ''Proxy Authentication Required''),
     (408, ''Request Timeout''), (409, ''Conflict''), (410, ''Gone''),
     (411, ''Length Required''), (412, ''Precondition Failed''),
     (413, ''Request Entity Too Large''), (414, ''Request URI Too Long''),
     (415, ''Unsupported Media Type''), (416, ''Requested Range Not Satisfiable''),
     (417, ''Expectation Failed''), (418, ''I'm a teapot''),
     (421, ''Misdirected Request''), (422, ''Unprocessable Entity''), (423, ''Locked''),
     (424, ''Failed Dependency''), (425, ''Too Early''), (426, ''Upgrade Required''),
     (428, ''Precondition Required''), (429, ''Too Many Requests''),
     (431, ''Request Header Fields Too Large''),
     (451, ''Unavailable For Legal Reasons''),
     (500, ''Internal Server Error''), (501, ''Not Implemented''), (502, ''Bad Gateway''),
     (503, ''Service Unavailable''), (504, ''Gateway Timeout''),
     (505, ''HTTP Version Not Supported''), (506, ''Variant Also Negotiates''),
     (507, ''Insufficient Storage''), (508, ''Loop Detected''), (510, ''Not Extended''),
     (511, ''Network Authentication Required'')]"

definition StatusText :: "int \<Rightarrow> string" where
  "StatusText code = (case map_of statusText_table code of None \<Rightarrow> [] | Some s \<Rightarrow> s)"

text \<open>
  The response writer's methods and \<^verbatim>\<open>http.Error\<close>. \<^verbatim>\<open>WriteHeader\<close> sets the status
  once: a second call changes nothing. \<^verbatim>\<open>Write\<close> sends status 200 first when no status
  has been written. \<^verbatim>\<open>http.Error\<close> sets the two headers of a plain-text reply, writes
  the status and prints the message followed by a newline.
\<close>

definition Header_Set :: "response \<Rightarrow> string \<Rightarrow> string \<Rightarrow> response" where
  "Header_Set w k v = w\<lparr>header := (k, v) # filter (\<lambda>kv. fst kv \<noteq> k) (header w)\<rparr>"

definition WriteHeader :: "response \<Rightarrow> int \<Rightarrow> response" where
  "WriteHeader w code = (case status w of None \<Rightarrow> w\<lparr>status := Some code\<rparr> | Some c \<Rightarrow> w)"

definition Write :: "response \<Rightarrow> string \<Rightarrow> response" where
  "Write w bs = (let w' = WriteHeader w 200 in w'\<lparr>body := body w' @ bs\<rparr>)"

definition http_Error :: "response \<Rightarrow> string \<Rightarrow> int \<Rightarrow> response" where
  "http_Error w msg code =
     (let w1 = Header_Set w ''Content-Type'' ''text/plain; charset=utf-8'';
          w2 = Header_Set w1 ''X-Content-Type-Options'' ''nosniff'';
          w3 = WriteHeader w2 code
      in Write w3 (msg @ [CHR 0x0A]))"

text \<open>
  \<^verbatim>\<open>time.Sleep(d)\<close> returns after at least \<^verbatim>\<open>d\<close>, at once when \<^verbatim>\<open>d\<close> is zero or
  negative. \<^verbatim>\<open>rand.Float32()\<close> takes the next variate of the global source.
  \<^verbatim>\<open>rand.Intn(n)\<close> panics when \<^verbatim>\<open>n <= 0\<close> and otherwise scales the next variate to an
  index below \<^verbatim>\<open>n\<close>.
\<close>

definition time_Sleep :: "int \<Rightarrow> env \<Rightarrow> env" where
  "time_Sleep d e = e\<lparr>clock := clock e + max 0 d\<rparr>"

definition rand_Float32 :: "env \<Rightarrow> float32 \<times> env" where
  "rand_Float32 e = (Fin (rand_src e (rand_pos e)), e\<lparr>rand_pos := Suc (rand_pos e)\<rparr>)"

definition rand_Intn :: "int \<Rightarrow> env \<Rightarrow> (panic_value + int) \<times> env" where
  "rand_Intn n e =
     (if n \<le> 0 then (Inl IntnInvalidArgument, e)
      else (Inr (\<lfloor>rand_src e (rand_pos e) * of_int n\<rfloor>), e\<lparr>rand_pos := Suc (rand_pos e)\<rparr>))"

section \<open>fault.go: the gate and the injectors\<close>

record Options =
  Enabled :: bool
  Injector :: "Injector option"
  PercentOfRequests :: float32

record Fault =
  opt :: Options

text \<open>
  \<^verbatim>\<open>NewFault\<close> returns a pointer and an error; the pointer is nil exactly when the
  error is not. \<open>Inl\<close> is the error return, \<open>Inr\<close> the struct behind the pointer.
\<close>

definition NewFault :: "Options \<Rightarrow> error + Fault" where
  "NewFault opts =
     (if Injector opts = None then Inl ErrNilInjector
      else if f32_less (PercentOfRequests opts) (Fin 0) \<or> f32_less (Fin 1) (PercentOfRequests opts)
        then Inl ErrInvalidPercent
      else Inr \<lparr>opt = opts\<rparr>)"

definition percentDo :: "Fault \<Rightarrow> env \<Rightarrow> bool \<times> env" where
  "percentDo f e =
     (let (rn, e') = rand_Float32 e in
      if f32_less rn (PercentOfRequests (opt f)) \<and> f32_le (PercentOfRequests (opt f)) (Fin 1)
        then (True, e')
      else (False, e'))"

text \<open>
  \<^verbatim>\<open>Fault.Handler\<close> is what the server calls once to build its handler. The receiver is
  a pointer, \<open>None\<close> when nil. The call to \<^verbatim>\<open>percentDo\<close> stands in the body of
  \<^verbatim>\<open>Handler\<close> itself, before the closure is made, so the function takes the environment
  and returns it with the handler.
\<close>

definition Fault_Handler :: "Fault option \<Rightarrow> handler \<Rightarrow> env \<Rightarrow> handler \<times> env" where
  "Fault_Handler f next e =
     (let passthrough = HandlerFunc (\<lambda>w r. ServeHTTP next w r) in
      case f of
        None \<Rightarrow> (passthrough, e)
      | Some ft \<Rightarrow>
          if Enabled (opt ft) then
            (let (b, e') = percentDo ft e in
             if b then
               (case Injector (opt ft) of
                  Some ij \<Rightarrow> (ij next, e')
                | None \<Rightarrow> (passthrough, e'))
             else (passthrough, e'))
          else (passthrough, e))"

record ChainedInjector =
  middlewares :: "middleware list"

text \<open>
  The variadic parameter of \<^verbatim>\<open>NewChainedInjector\<close> is a slice: \<open>None\<close> is the nil slice
  that a call without arguments passes, \<open>Some []\<close> an empty slice that is not nil. Taking
  the method value \<^verbatim>\<open>i.Handler\<close> of a nil interface element panics.
\<close>

fun method_values :: "Injector option list \<Rightarrow> middleware list \<Rightarrow> panic_value + middleware list" where
  "method_values [] acc = Inr acc"
| "method_values (None # rest) acc = Inl NilPointerDereference"
| "method_values (Some i # rest) acc = method_values rest (acc @ [i])"

definition NewChainedInjector :: "Injector option list option \<Rightarrow> panic_value + (error + ChainedInjector)" where
  "NewChainedInjector injectors =
     (case injectors of
        None \<Rightarrow> Inr (Inl ErrNilInjector)
      | Some injs \<Rightarrow>
          (case method_values injs [] of
             Inl p \<Rightarrow> Inl p
           | Inr ms \<Rightarrow> Inr (Inr \<lparr>middlewares = ms\<rparr>)))"

function chain_loop :: "middleware list \<Rightarrow> int \<Rightarrow> handler \<Rightarrow> handler" where
  "chain_loop ms idx chain =
     (if idx \<ge> 0 then chain_loop ms (idx - 1) ((ms ! nat idx) chain) else chain)"
  by pat_completeness auto
termination
  by (relation "measure (\<lambda>(ms, idx, chain). nat (idx + 1))") auto

definition ChainedInjector_Handler :: "ChainedInjector option \<Rightarrow> handler \<Rightarrow> handler" where
  "ChainedInjector_Handler i next =
     HandlerFunc (\<lambda>w r.
       let chain = (case i of
                      None \<Rightarrow> next
                    | Some ci \<Rightarrow> chain_loop (middlewares ci) (int (length (middlewares ci)) - 1) next)
       in ServeHTTP chain w r)"

record RejectInjector =
  reject_unit :: unit

definition NewRejectInjector :: "error + RejectInjector" where
  "NewRejectInjector = Inr \<lparr>reject_unit = ()\<rparr>"

definition RejectInjector_Handler :: "RejectInjector option \<Rightarrow> handler \<Rightarrow> handler" where
  "RejectInjector_Handler i next = HandlerFunc (\<lambda>w r e. (Panicked ErrAbortHandler, w, e))"

record ErrorInjector =
  statusCode :: int
  statusText :: string

definition NewErrorInjector :: "int \<Rightarrow> error + ErrorInjector" where
  "NewErrorInjector code =
     (let st = StatusText code in
      if st = [] then Inl ErrInvalidHTTPCode
      else Inr \<lparr>statusCode = code, statusText = st\<rparr>)"

definition ErrorInjector_Handler :: "ErrorInjector option \<Rightarrow> handler \<Rightarrow> handler" where
  "ErrorInjector_Handler i next =
     HandlerFunc (\<lambda>w r e.
       case i of
         None \<Rightarrow> ServeHTTP next w r e
       | Some ei \<Rightarrow>
           if StatusText (statusCode ei) \<noteq> []
             then (Returned, http_Error w (statusText ei) (statusCode ei), e)
           else ServeHTTP next w r e)"

text \<open>
  The \<^verbatim>\<open>sleep\<close> field is a function value, \<open>None\<close> when nil. The constructor stores
  \<^verbatim>\<open>time.Sleep\<close>; the package's tests store a recorder.
\<close>

record SlowInjector =
  duration :: int
  sleep :: "(int \<Rightarrow> env \<Rightarrow> env) option"

definition NewSlowInjector :: "int \<Rightarrow> error + SlowInjector" where
  "NewSlowInjector d = Inr \<lparr>duration = d, sleep = Some time_Sleep\<rparr>"

definition SlowInjector_Handler :: "SlowInjector option \<Rightarrow> handler \<Rightarrow> handler" where
  "SlowInjector_Handler i next =
     HandlerFunc (\<lambda>w r e.
       let e' = (case i of
                   None \<Rightarrow> e
                 | Some si \<Rightarrow> (case sleep si of None \<Rightarrow> e | Some sl \<Rightarrow> sl (duration si) e))
       in ServeHTTP next w r e')"

section \<open>The reporter-aware injectors of the second source file\<close>

text \<open>
  The second file holds a later revision of the injectors: each carries a reporter, and
  a random injector is added. Its types that share a name with one of \<^verbatim>\<open>fault.go\<close>
  carry the suffix \<open>2\<close> here.
\<close>

type_synonym Reporter = "request \<Rightarrow> string \<Rightarrow> env \<Rightarrow> env"

text \<open>
  Modelled from the spec: \<^verbatim>\<open>reportWithMessage\<close>, which every handler of this file calls
  and whose declaration is not among the source files. The reporter is a write-only
  notification sink with the one method \<open>report(request, message)\<close>; it is fire and
  forget, its failures do not reach the request, and an absent reporter degrades to
  doing nothing.
\<close>

definition reportWithMessage :: "Reporter option \<Rightarrow> request \<Rightarrow> string \<Rightarrow> env \<Rightarrow> env" where
  "reportWithMessage rp r msg e = (case rp of None \<Rightarrow> e | Some rep \<Rightarrow> rep r msg e)"

text \<open>
  Modelled from the spec: \<^verbatim>\<open>updateRequestContextValue\<close>, whose declaration is not among
  the source files. It attaches to the context of the request an opaque tag that names
  the injector that acted on it, and touches nothing else of the request.
\<close>

definition updateRequestContextValue :: "request \<Rightarrow> ContextValue \<Rightarrow> request" where
  "updateRequestContextValue r v = r\<lparr>ctxValues := ctxValues r @ [v]\<rparr>"

record ChainInjector =
  chain_middlewares :: "middleware list"
  chain_reporter :: "Reporter option"

text \<open>
  \<^verbatim>\<open>NewChainInjector\<close> has no nil check on its variadic parameter: ranging over the nil
  slice does nothing, as over an empty one.
\<close>

definition NewChainInjector :: "Injector option list option \<Rightarrow> panic_value + (error + ChainInjector)" where
  "NewChainInjector injectors =
     (case method_values (case injectors of None \<Rightarrow> [] | Some injs \<Rightarrow> injs) [] of
        Inl p \<Rightarrow> Inl p
      | Inr ms \<Rightarrow> Inr (Inr \<lparr>chain_middlewares = ms, chain_reporter = None\<rparr>))"

text \<open>
  The closure that \<^verbatim>\<open>ChainInjector.Handler\<close> returns assigns to \<^verbatim>\<open>next\<close>, the parameter
  of \<^verbatim>\<open>Handler\<close> that it captures: the loop wraps the handler held in that variable
  and stores the result back, where the following call of the closure finds it. One
  call of the closure is therefore a function of the handler that the variable holds,
  and returns, with the result of serving, the handler that it leaves there. The first
  call after \<^verbatim>\<open>Handler(next)\<close> finds \<open>next\<close>. On the nil receiver the variable is not
  assigned.
\<close>

definition ChainInjector_Handler ::
  "ChainInjector option \<Rightarrow> handler \<Rightarrow> response \<Rightarrow> request \<Rightarrow> env
     \<Rightarrow> (outcome \<times> response \<times> env) \<times> handler" where
  "ChainInjector_Handler i next w r e =
     (case i of
        None \<Rightarrow> (ServeHTTP next w r e, next)
      | Some ci \<Rightarrow>
          (let e' = reportWithMessage (chain_reporter ci) r ''chain injector: starting'' e;
               r' = updateRequestContextValue r ContextValueChainInjector;
               next' = chain_loop (chain_middlewares ci) (int (length (chain_middlewares ci)) - 1) next
           in (ServeHTTP next' w r' e', next')))"

record RandomInjector =
  randF :: "(int \<Rightarrow> env \<Rightarrow> (panic_value + int) \<times> env) option"
  random_middlewares :: "middleware list"
  random_reporter :: "Reporter option"

text \<open>
  \<^verbatim>\<open>NewRandomInjector\<close> has no nil check on its variadic parameter: ranging over the
  nil slice does nothing, as over an empty one.
\<close>

definition NewRandomInjector :: "Injector option list option \<Rightarrow> panic_value + (error + RandomInjector)" where
  "NewRandomInjector injectors =
     (case method_values (case injectors of None \<Rightarrow> [] | Some injs \<Rightarrow> injs) [] of
        Inl p \<Rightarrow> Inl p
      | Inr ms \<Rightarrow>
          Inr (Inr \<lparr>randF = Some rand_Intn, random_middlewares = ms, random_reporter = None\<rparr>))"

text \<open>
  The index expression \<^verbatim>\<open>i.middlewares[i.randF(len(i.middlewares))]\<close> calls the
  function value \<^verbatim>\<open>randF\<close> (a panic when it is nil, or when the function panics) and
  then indexes the slice (a panic when the index is out of range).
\<close>

definition RandomInjector_Handler :: "RandomInjector option \<Rightarrow> handler \<Rightarrow> handler" where
  "RandomInjector_Handler i next =
     HandlerFunc (\<lambda>w r e.
       case i of
         None \<Rightarrow> ServeHTTP next w r e
       | Some ri \<Rightarrow>
           if length (random_middlewares ri) > 0 then
             (let e1 = reportWithMessage (random_reporter ri) r ''random injector: starting'' e;
                  r' = updateRequestContextValue r ContextValueRandomInjector
              in case randF ri of
                   None \<Rightarrow> (Panicked NilPointerDereference, w, e1)
                 | Some rf \<Rightarrow>
                     (case rf (int (length (random_middlewares ri))) e1 of
                        (Inl p, e2) \<Rightarrow> (Panicked p, w, e2)
                      | (Inr k, e2) \<Rightarrow>
                          if 0 \<le> k \<and> k < int (length (random_middlewares ri))
                            then ServeHTTP ((random_middlewares ri ! nat k) next) w r' e2
                          else (Panicked IndexOutOfRange, w, e2)))
           else ServeHTTP next w r e)"

record RejectInjector2 =
  reject_reporter :: "Reporter option"

definition NewRejectInjector2 :: "error + RejectInjector2" where
  "NewRejectInjector2 = Inr \<lparr>reject_reporter = None\<rparr>"

definition RejectInjector2_Handler :: "RejectInjector2 option \<Rightarrow> handler \<Rightarrow> handler" where
  "RejectInjector2_Handler i next =
     HandlerFunc (\<lambda>w r e.
       let e' = (case i of
                   None \<Rightarrow> e
                 | Some ri \<Rightarrow> reportWithMessage (reject_reporter ri) r ''reject injector: starting'' e)
       in (Panicked ErrAbortHandler, w, e'))"

record ErrorInjector2 =
  error_statusCode :: int
  error_statusText :: string
  error_reporter :: "Reporter option"

definition NewErrorInjector2 :: "int \<Rightarrow> error + ErrorInjector2" where
  "NewErrorInjector2 code =
     (let st = StatusText code in
      if st = [] then Inl ErrInvalidHTTPCode
      else Inr \<lparr>error_statusCode = code, error_statusText = st, error_reporter = None\<rparr>)"

definition ErrorInjector2_Handler :: "ErrorInjector2 option \<Rightarrow> handler \<Rightarrow> handler" where
  "ErrorInjector2_Handler i next =
     HandlerFunc (\<lambda>w r e.
       case i of
         None \<Rightarrow> ServeHTTP next w r e
       | Some ei \<Rightarrow>
           (let e' = reportWithMessage (error_reporter ei) r ''error injector: starting'' e in
            if StatusText (error_statusCode ei) \<noteq> []
              then (Returned, http_Error w (error_statusText ei) (error_statusCode ei), e')
            else ServeHTTP next w r e'))"

record SlowInjector2 =
  slow_duration :: int
  slow_reporter :: "Reporter option"
  slow_sleep :: "(int \<Rightarrow> env \<Rightarrow> env) option"

definition NewSlowInjector2 :: "int \<Rightarrow> error + SlowInjector2" where
  "NewSlowInjector2 d =
     Inr \<lparr>slow_duration = d, slow_reporter = None, slow_sleep = Some time_Sleep\<rparr>"

definition SlowInjector2_Handler :: "SlowInjector2 option \<Rightarrow> handler \<Rightarrow> handler" where
  "SlowInjector2_Handler i next =
     HandlerFunc (\<lambda>w r e.
       let e' = (case i of
                   None \<Rightarrow> e
                 | Some si \<Rightarrow>
                     (case slow_sleep si of
                        None \<Rightarrow> e
                      | Some sl \<Rightarrow>
                          sl (slow_duration si)
                            (reportWithMessage (slow_reporter si) r ''slow injector: starting'' e)))
       in ServeHTTP next w (updateRequestContextValue r ContextValueSlowInjector) e')"

section \<open>Test doubles and concrete inputs\<close>

text \<open>
  The recorders that the package's tests put in place of \<^verbatim>\<open>time.Sleep\<close>, of a reporter
  and of the downstream handler; a downstream handler that records whether the request
  it is given carries a tag; the handler of the README, which writes a greeting; and
  a fresh response writer, a request and an environment whose random source hands out
  \<open>1/4\<close> first and \<open>3/4\<close> ever after.
\<close>

definition record_sleep :: "int \<Rightarrow> env \<Rightarrow> env" where
  "record_sleep d e = e\<lparr>trace := trace e @ [Slept d]\<rparr>"

definition record_report :: Reporter where
  "record_report r msg e = e\<lparr>trace := trace e @ [Reported msg]\<rparr>"

definition record_serve :: "string \<Rightarrow> handler" where
  "record_serve name w r e = (Returned, w, e\<lparr>trace := trace e @ [Served name]\<rparr>)"

definition tag_probe :: handler where
  "tag_probe w r e = (Returned, w, e\<lparr>trace := trace e @ [Served (if ctxValues r = [] then ''untagged'' else ''tagged'')]\<rparr>)"

definition mainHandler :: handler where
  "mainHandler w r e = (Returned, Write w ''Hello World'', e)"

definition resp0 :: response where
  "resp0 = \<lparr>header = [], status = None, body = []\<rparr>"

definition req0 :: request where
  "req0 = \<lparr>path = ''/'', ctxValues = []\<rparr>"

definition env0 :: env where
  "env0 = \<lparr>clock = 0, rand_src = (\<lambda>n. if n = 0 then 1 / 4 else 3 / 4), rand_pos = 0, trace = []\<rparr>"

text \<open>
  The wrap function of an injector that does something to the response and the
  environment and then always hands the request on: it never terminates early.
\<close>

definition delegating :: "(response \<times> env \<Rightarrow> response \<times> env) \<Rightarrow> middleware" where
  "delegating a next = HandlerFunc (\<lambda>w r e. case a (w, e) of (w', e') \<Rightarrow> ServeHTTP next w' r e')"

definition record_visit :: "string \<Rightarrow> response \<times> env \<Rightarrow> response \<times> env" where
  "record_visit name we = (fst we, (snd we)\<lparr>trace := trace (snd we) @ [Served name]\<rparr>)"

text \<open>
  A gate that is switched on with probability one half over the error injector for 503,
  a gate that is switched off, a gate whose injector is the nil interface, and a random
  injector over three recording sub-injectors whose random source always answers 1.
\<close>

definition gate_half :: Fault where
  "gate_half = \<lparr>opt = \<lparr>Enabled = True,
      Injector = Some (ErrorInjector_Handler (Some \<lparr>statusCode = 503, statusText = ''Service Unavailable''\<rparr>)),
      PercentOfRequests = Fin (1 / 2)\<rparr>\<rparr>"

definition gate_off :: Fault where
  "gate_off = \<lparr>opt = \<lparr>Enabled = False,
      Injector = Some (RejectInjector_Handler None),
      PercentOfRequests = Fin 1\<rparr>\<rparr>"

definition gate_no_injector :: Fault where
  "gate_no_injector = \<lparr>opt = \<lparr>Enabled = True, Injector = None, PercentOfRequests = Fin 1\<rparr>\<rparr>"

definition pick_second :: "int \<Rightarrow> env \<Rightarrow> (panic_value + int) \<times> env" where
  "pick_second n e = (Inr 1, e)"

definition random_abc :: RandomInjector where
  "random_abc = \<lparr>randF = Some pick_second,
      random_middlewares = [delegating (record_visit ''A''), delegating (record_visit ''B''),
                            delegating (record_visit ''C'')],
      random_reporter = Some record_report\<rparr>"

section \<open>Basic facts\<close>

declare chain_loop.simps [simp del]

lemma ServeHTTP_eq: "ServeHTTP h = h"
  by (intro ext) (simp add: ServeHTTP_def)

lemma HandlerFunc_eq: "HandlerFunc f = f"
  by (intro ext) (simp add: HandlerFunc_def)

lemma StatusText_503: "StatusText 503 = ''Service Unavailable''"
  by (simp add: StatusText_def statusText_table_def)

lemma StatusText_999: "StatusText 999 = []"
  by (simp add: StatusText_def statusText_table_def)

lemma http_Error_fresh:
  "status w = None \<Longrightarrow>
   status (http_Error w msg code) = Some code \<and> body (http_Error w msg code) = body w @ msg @ [CHR 0x0A]"
  by (simp add: http_Error_def Header_Set_def WriteHeader_def Write_def Let_def)

lemma mainHandler_fresh:
  "mainHandler resp0 req0 e = (Returned, \<lparr>header = [], status = Some 200, body = ''Hello World''\<rparr>, e)"
  by (simp add: mainHandler_def resp0_def Write_def WriteHeader_def Let_def)

lemma reportWithMessage_None: "reportWithMessage None r msg e = e"
  by (simp add: reportWithMessage_def)

lemma reportWithMessage_silent: "reportWithMessage (Some (\<lambda>r msg e. e)) r msg e = e"
  by (simp add: reportWithMessage_def)

lemma delegating_apply:
  "delegating a next w r e = (case a (w, e) of (w', e') \<Rightarrow> next w' r e')"
  by (simp add: delegating_def HandlerFunc_eq ServeHTTP_eq)

subsection \<open>The random source\<close>

text \<open>
  With a variate in \<open>[0, 1)\<close>, \<^verbatim>\<open>rand.Intn(n)\<close> returns an index below a positive \<open>n\<close>
  and takes one variate.
\<close>

lemma rand_Intn_in_range:
  assumes n: "0 < n" and u0: "0 \<le> rand_src e (rand_pos e)" and u1: "rand_src e (rand_pos e) < 1"
  shows "\<exists>k. rand_Intn n e = (Inr k, e\<lparr>rand_pos := Suc (rand_pos e)\<rparr>) \<and> 0 \<le> k \<and> k < n"
proof -
  let ?u = "rand_src e (rand_pos e)"
  have "0 \<le> ?u * of_int n" using n u0 by simp
  then have lo: "0 \<le> \<lfloor>?u * of_int n\<rfloor>" by simp
  have "?u * of_int n < 1 * of_int n" using n u1 by (intro mult_strict_right_mono) simp_all
  then have hi: "\<lfloor>?u * of_int n\<rfloor> < n" by (simp add: floor_less_iff)
  have pos: "\<not> n \<le> 0" using n by simp
  have "rand_Intn n e = (Inr \<lfloor>?u * of_int n\<rfloor>, e\<lparr>rand_pos := Suc (rand_pos e)\<rparr>)"
    by (simp only: rand_Intn_def pos if_False)
  then show ?thesis using lo hi by blast
qed

subsection \<open>The gate\<close>

lemma NewFault_unless_NaN:
  "PercentOfRequests opts \<noteq> NaN \<Longrightarrow>
   (\<exists>err. NewFault opts = Inl err) =
     (Injector opts = None \<or>
      \<not> (f32_le (Fin 0) (PercentOfRequests opts) \<and> f32_le (PercentOfRequests opts) (Fin 1)))"
  by (cases "PercentOfRequests opts") (auto simp: NewFault_def)

lemma NewFault_Inr:
  "NewFault opts = Inr f \<Longrightarrow>
   opt f = opts \<and> Injector opts \<noteq> None \<and> \<not> f32_less (PercentOfRequests opts) (Fin 0)
     \<and> \<not> f32_less (Fin 1) (PercentOfRequests opts)"
  by (auto simp: NewFault_def split: if_splits)

text \<open>
  The \<^verbatim>\<open>float32\<close> nearest to \<open>-0.1\<close> is \<open>-13421773 / 2^27\<close>, the one nearest to \<open>1.1\<close> is
  \<open>9227469 / 2^23\<close>.
\<close>

lemma NewFault_examples:
  "NewFault \<lparr>Enabled = en, Injector = Some ij, PercentOfRequests = Fin (- 13421773 / 134217728)\<rparr>
     = Inl ErrInvalidPercent"
  "NewFault \<lparr>Enabled = en, Injector = Some ij, PercentOfRequests = Fin (9227469 / 8388608)\<rparr>
     = Inl ErrInvalidPercent"
  "NewFault \<lparr>Enabled = en, Injector = Some ij, PercentOfRequests = Fin 0\<rparr>
     = Inr \<lparr>opt = \<lparr>Enabled = en, Injector = Some ij, PercentOfRequests = Fin 0\<rparr>\<rparr>"
  "NewFault \<lparr>Enabled = en, Injector = Some ij, PercentOfRequests = Fin 1\<rparr>
     = Inr \<lparr>opt = \<lparr>Enabled = en, Injector = Some ij, PercentOfRequests = Fin 1\<rparr>\<rparr>"
  "NewFault \<lparr>Enabled = en, Injector = None, PercentOfRequests = p\<rparr> = Inl ErrNilInjector"
  by (simp_all add: NewFault_def)

lemma percentDo_eq:
  "percentDo f e =
     (f32_less (Fin (rand_src e (rand_pos e))) (PercentOfRequests (opt f))
        \<and> f32_le (PercentOfRequests (opt f)) (Fin 1),
      e\<lparr>rand_pos := Suc (rand_pos e)\<rparr>)"
  by (simp add: percentDo_def rand_Float32_def)

lemma Fault_Handler_None: "Fault_Handler None next e0 = (next, e0)"
  by (simp add: Fault_Handler_def HandlerFunc_eq ServeHTTP_eq)

lemma Fault_Handler_no_injector:
  "Injector (opt f) = None \<Longrightarrow> fst (Fault_Handler (Some f) next e0) = next"
  by (simp add: Fault_Handler_def percentDo_eq HandlerFunc_eq ServeHTTP_eq Let_def)

text \<open>
  What an enabled gate does: one variate is taken when \<^verbatim>\<open>Handler\<close> is called, and the
  handler it returns is the injector's or \<open>next\<close> for good.
\<close>

lemma Fault_Handler_enabled:
  "Enabled (opt f) \<Longrightarrow> Injector (opt f) = Some ij \<Longrightarrow>
   Fault_Handler (Some f) next e =
     (if f32_less (Fin (rand_src e (rand_pos e))) (PercentOfRequests (opt f))
           \<and> f32_le (PercentOfRequests (opt f)) (Fin 1)
        then ij next else next,
      e\<lparr>rand_pos := Suc (rand_pos e)\<rparr>)"
  by (simp add: Fault_Handler_def percentDo_eq HandlerFunc_eq ServeHTTP_eq Let_def)

lemma Fault_Handler_percent_zero:
  "Enabled (opt f) \<Longrightarrow> PercentOfRequests (opt f) = Fin 0 \<Longrightarrow> 0 \<le> rand_src e (rand_pos e) \<Longrightarrow>
   fst (Fault_Handler (Some f) next e) = next"
  by (simp add: Fault_Handler_def percentDo_eq HandlerFunc_eq ServeHTTP_eq Let_def
        split: option.splits)

lemma Fault_Handler_percent_one:
  "Enabled (opt f) \<Longrightarrow> Injector (opt f) = Some ij \<Longrightarrow> PercentOfRequests (opt f) = Fin 1 \<Longrightarrow>
   rand_src e (rand_pos e) < 1 \<Longrightarrow>
   fst (Fault_Handler (Some f) next e) = ij next"
  by (simp add: Fault_Handler_enabled)

subsection \<open>The chain\<close>

text \<open>
  The loop of \<^verbatim>\<open>ChainedInjector.Handler\<close> counts down from the last index. Stopped
  after the wraps at the indices \<open>idx, ..., 0\<close>, it has built the right fold over the
  first \<open>idx + 1\<close> wrap functions.
\<close>

lemma chain_loop_take:
  "idx < int (length ms) \<Longrightarrow>
   chain_loop ms idx chain = foldr (\<lambda>m h. m h) (take (nat (idx + 1)) ms) chain"
proof (induction ms idx chain rule: chain_loop.induct)
  case (1 ms idx chain)
  show ?case
  proof (cases "idx \<ge> 0")
    case True
    have lt: "nat idx < length ms" using True "1.prems" by simp
    have "chain_loop ms idx chain = chain_loop ms (idx - 1) ((ms ! nat idx) chain)"
      using True by (subst chain_loop.simps) simp
    also have "\<dots> = foldr (\<lambda>m h. m h) (take (nat (idx - 1 + 1)) ms) ((ms ! nat idx) chain)"
      using "1.IH" [OF True] "1.prems" by simp
    also have "\<dots> = foldr (\<lambda>m h. m h) (take (nat idx) ms @ [ms ! nat idx]) chain"
      by simp
    also have "take (nat idx) ms @ [ms ! nat idx] = take (Suc (nat idx)) ms"
      using lt by (simp add: take_Suc_conv_app_nth)
    also have "Suc (nat idx) = nat (idx + 1)" using True by simp
    finally show ?thesis .
  next
    case False
    have "chain_loop ms idx chain = chain" using False by (subst chain_loop.simps) simp
    then show ?thesis using False by simp
  qed
qed

lemma chain_loop_all:
  "chain_loop ms (int (length ms) - 1) next = foldr (\<lambda>m h. m h) ms next"
  using chain_loop_take [of "int (length ms) - 1" ms "next"] by simp

lemma ChainedInjector_Handler_Some:
  "ChainedInjector_Handler (Some ci) next = foldr (\<lambda>m h. m h) (middlewares ci) next"
  by (simp add: ChainedInjector_Handler_def HandlerFunc_eq ServeHTTP_eq chain_loop_all Let_def)

lemma ChainedInjector_Handler_None: "ChainedInjector_Handler None next = next"
  by (simp add: ChainedInjector_Handler_def HandlerFunc_eq ServeHTTP_eq)

lemma method_values_Some: "method_values (map Some injs) acc = Inr (acc @ injs)"
  by (induction injs arbitrary: acc) simp_all

lemma foldr_delegating:
  "foldr (\<lambda>m h. m h) (map delegating acts) next w r e =
     (case fold (\<lambda>a we. a we) acts (w, e) of (w', e') \<Rightarrow> next w' r e')"
proof (induction acts arbitrary: w e)
  case Nil
  show ?case by simp
next
  case (Cons a acts)
  obtain w1 e1 where a: "a (w, e) = (w1, e1)" by (cases "a (w, e)")
  have "foldr (\<lambda>m h. m h) (map delegating (a # acts)) next w r e =
          delegating a (foldr (\<lambda>m h. m h) (map delegating acts) next) w r e"
    by simp
  also have "\<dots> = foldr (\<lambda>m h. m h) (map delegating acts) next w1 r e1"
    by (simp only: delegating_apply a prod.case)
  also have "\<dots> = (case fold (\<lambda>a we. a we) acts (w1, e1) of (w', e') \<Rightarrow> next w' r e')"
    by (rule Cons.IH)
  also have "fold (\<lambda>a we. a we) acts (w1, e1) = fold (\<lambda>a we. a we) (a # acts) (w, e)"
    by (simp add: a)
  finally show ?case .
qed

subsection \<open>The terminal injectors\<close>

lemma ErrorInjector_Handler_None: "ErrorInjector_Handler None next = next"
  by (simp add: ErrorInjector_Handler_def HandlerFunc_eq ServeHTTP_eq)

lemma SlowInjector_Handler_None: "SlowInjector_Handler None next = next"
  by (simp add: SlowInjector_Handler_def HandlerFunc_eq ServeHTTP_eq)

lemma RejectInjector_Handler_eq:
  "RejectInjector_Handler i next w r e = (Panicked ErrAbortHandler, w, e)"
  by (simp add: RejectInjector_Handler_def HandlerFunc_eq)

lemma RandomInjector_nil_reporter:
  "RandomInjector_Handler (Some (ri\<lparr>random_reporter := None\<rparr>)) next w r e
     = RandomInjector_Handler (Some (ri\<lparr>random_reporter := Some (\<lambda>r msg e. e)\<rparr>)) next w r e"
  by (cases ri) (simp add: RandomInjector_Handler_def reportWithMessage_None reportWithMessage_silent
        HandlerFunc_eq Let_def split: option.splits prod.splits sum.splits)

lemma RejectInjector2_nil_reporter:
  "RejectInjector2_Handler (Some (rj\<lparr>reject_reporter := None\<rparr>)) next w r e
     = RejectInjector2_Handler (Some (rj\<lparr>reject_reporter := Some (\<lambda>r msg e. e)\<rparr>)) next w r e"
  by (cases rj) (simp add: RejectInjector2_Handler_def reportWithMessage_None reportWithMessage_silent
        HandlerFunc_eq Let_def)

lemma ErrorInjector2_nil_reporter:
  "ErrorInjector2_Handler (Some (ei\<lparr>error_reporter := None\<rparr>)) next w r e
     = ErrorInjector2_Handler (Some (ei\<lparr>error_reporter := Some (\<lambda>r msg e. e)\<rparr>)) next w r e"
  by (cases ei) (simp add: ErrorInjector2_Handler_def reportWithMessage_None reportWithMessage_silent
        HandlerFunc_eq Let_def)

lemma SlowInjector2_nil_reporter:
  "SlowInjector2_Handler (Some (si\<lparr>slow_reporter := None\<rparr>)) next w r e
     = SlowInjector2_Handler (Some (si\<lparr>slow_reporter := Some (\<lambda>r msg e. e)\<rparr>)) next w r e"
  by (cases si) (simp add: SlowInjector2_Handler_def reportWithMessage_None reportWithMessage_silent
        HandlerFunc_eq Let_def split: option.splits)

lemma ChainInjector_nil_reporter:
  "ChainInjector_Handler (Some (ci\<lparr>chain_reporter := None\<rparr>)) next w r e
     = ChainInjector_Handler (Some (ci\<lparr>chain_reporter := Some (\<lambda>r msg e. e)\<rparr>)) next w r e"
  by (cases ci) (simp add: ChainInjector_Handler_def reportWithMessage_None reportWithMessage_silent
        Let_def)

lemma ChainInjector_Handler_None: "ChainInjector_Handler None next w r e = (next w r e, next)"
  by (simp add: ChainInjector_Handler_def ServeHTTP_eq)

text \<open>
  One call of the closure of a chain serves the request with the wrap functions folded
  over the handler that the captured variable holds, and leaves that fold in the
  variable.
\<close>

lemma ChainInjector_Handler_Some:
  "ChainInjector_Handler (Some ci) next w r e =
     (foldr (\<lambda>m h. m h) (chain_middlewares ci) next w
        (updateRequestContextValue r ContextValueChainInjector)
        (reportWithMessage (chain_reporter ci) r ''chain injector: starting'' e),
      foldr (\<lambda>m h. m h) (chain_middlewares ci) next)"
  by (simp add: ChainInjector_Handler_def ServeHTTP_eq chain_loop_all Let_def)

lemma RandomInjector_Handler_None: "RandomInjector_Handler None next = next"
  by (simp add: RandomInjector_Handler_def HandlerFunc_eq ServeHTTP_eq)

lemma ErrorInjector2_Handler_None: "ErrorInjector2_Handler None next = next"
  by (simp add: ErrorInjector2_Handler_def HandlerFunc_eq ServeHTTP_eq)

lemma SlowInjector2_Handler_None:
  "SlowInjector2_Handler None next w r e
     = next w (updateRequestContextValue r ContextValueSlowInjector) e"
  by (simp add: SlowInjector2_Handler_def HandlerFunc_eq ServeHTTP_eq)

lemma RejectInjector2_Handler_None:
  "RejectInjector2_Handler None next w r e = (Panicked ErrAbortHandler, w, e)"
  by (simp add: RejectInjector2_Handler_def HandlerFunc_eq)

lemma NewRandomInjector_Some:
  "NewRandomInjector (Some (map Some injs))
     = Inr (Inr \<lparr>randF = Some rand_Intn, random_middlewares = injs, random_reporter = None\<rparr>)"
  by (simp add: NewRandomInjector_def method_values_Some)

section \<open>The claims\<close>

subsection \<open>C1: when the gate draws its sample\<close>

text \<open>
  C1 says that the handler returned by \<^verbatim>\<open>Fault.Handler(next)\<close> draws a fresh sample for
  every request and sends the request to the injector exactly when that sample is below
  the probability. The code draws in \<^verbatim>\<open>Handler\<close> itself, once, before it builds the
  handler. The theorem runs the code on the gate with probability one half over the
  error injector: called while the source hands out \<open>1/4\<close>, \<^verbatim>\<open>Handler\<close> takes that one
  variate and returns a handler that answers 503 in every environment \<open>e\<close>, also those
  whose next variate is \<open>3/4\<close>, and leaves the source alone; called while the source
  hands out \<open>3/4\<close>, it returns a handler that is the downstream handler in every
  environment.
\<close>

theorem Fault_Handler_samples_at_wrap_time:
  "snd (Fault_Handler (Some gate_half) mainHandler env0) = env0\<lparr>rand_pos := 1\<rparr>
   \<and> fst (Fault_Handler (Some gate_half) mainHandler env0) resp0 req0 e
       = (Returned, http_Error resp0 ''Service Unavailable'' 503, e)
   \<and> snd (Fault_Handler (Some gate_half) mainHandler (env0\<lparr>rand_pos := 1\<rparr>)) = env0\<lparr>rand_pos := 2\<rparr>
   \<and> fst (Fault_Handler (Some gate_half) mainHandler (env0\<lparr>rand_pos := 1\<rparr>)) resp0 req0 e
       = mainHandler resp0 req0 e"
  by (simp add: Fault_Handler_enabled [where ij = "ErrorInjector_Handler (Some \<lparr>statusCode = 503, statusText = ''Service Unavailable''\<rparr>)"]
        gate_half_def env0_def ErrorInjector_Handler_def HandlerFunc_eq StatusText_503)

subsection \<open>C2: the chain over no sub-injectors\<close>

text \<open>
  C2 says that constructing a \<^verbatim>\<open>ChainedInjector\<close> from an empty list of sub-injectors
  succeeds. The call without arguments passes the nil slice, and the constructor's
  guard \<^verbatim>\<open>is == nil\<close> answers it with \<^verbatim>\<open>ErrNilInjector\<close>.
\<close>

theorem NewChainedInjector_no_arguments_fails:
  "NewChainedInjector None = Inr (Inl ErrNilInjector)"
  by (simp add: NewChainedInjector_def)

text \<open>
  C2 as amended: constructing a \<^verbatim>\<open>ChainedInjector\<close> from an empty slice that is not nil
  succeeds, and the handler of the resulting injector is the downstream handler on
  every request; so is the handler of the nil \<^verbatim>\<open>*ChainedInjector\<close> that the call
  without arguments returns with its error.
\<close>

theorem ChainedInjector_empty_passthrough:
  "NewChainedInjector (Some []) = Inr (Inr \<lparr>middlewares = []\<rparr>)
   \<and> ChainedInjector_Handler (Some \<lparr>middlewares = []\<rparr>) next w r e = next w r e
   \<and> ChainedInjector_Handler None next w r e = next w r e"
  by (simp add: NewChainedInjector_def ChainedInjector_Handler_Some ChainedInjector_Handler_None)

subsection \<open>C3: nil receivers and the nil reporter\<close>

text \<open>
  C3 says that the handler made by a nil \<^verbatim>\<open>*RejectInjector\<close>, like that of the other nil
  receivers, hands the request to the downstream handler. \<^verbatim>\<open>RejectInjector.Handler\<close>
  never reads its receiver: on the nil receiver it aborts the request as on any other,
  and the downstream handler of the README, which would have answered 200, is not
  reached.
\<close>

theorem nil_RejectInjector_aborts:
  "RejectInjector_Handler None mainHandler resp0 req0 env0 = (Panicked ErrAbortHandler, resp0, env0)
   \<and> RejectInjector_Handler None mainHandler resp0 req0 env0 \<noteq> mainHandler resp0 req0 env0"
  by (simp add: RejectInjector_Handler_def HandlerFunc_eq mainHandler_def)

text \<open>
  C3 as amended, for every downstream handler \<open>next\<close> and every request.
  The gate: the handler made by a nil \<^verbatim>\<open>*Fault\<close> (which draws no sample) and by a gate
  whose injector is nil is \<open>next\<close>.
  The nil receivers of \<^verbatim>\<open>fault.go\<close>: the handler made by a nil \<^verbatim>\<open>*ChainedInjector\<close>, a
  nil \<^verbatim>\<open>*ErrorInjector\<close> and a nil \<^verbatim>\<open>*SlowInjector\<close> is \<open>next\<close>; the handler made by a
  nil \<^verbatim>\<open>*RejectInjector\<close> aborts with \<^verbatim>\<open>http.ErrAbortHandler\<close> and leaves response and
  environment as they were.
  The nil receivers of the reporter-aware revision: the handler made by a nil
  \<^verbatim>\<open>*ChainInjector\<close> (which leaves its captured variable alone), a nil
  \<^verbatim>\<open>*RandomInjector\<close> and a nil \<^verbatim>\<open>*ErrorInjector\<close> is \<open>next\<close>; the handler made by a nil
  \<^verbatim>\<open>*SlowInjector\<close> runs \<open>next\<close>, but on the request tagged with
  \<^verbatim>\<open>ContextValueSlowInjector\<close>, since the tag is attached outside the nil check; the
  handler made by a nil \<^verbatim>\<open>*RejectInjector\<close> aborts with \<^verbatim>\<open>http.ErrAbortHandler\<close>.
  The nil reporter: reporting to it changes nothing, and each of the five reporter-aware
  injectors (chain, random, reject, error, slow) with a nil reporter handles the request
  exactly as with a reporter that does nothing.
\<close>

theorem nil_receivers_and_nil_reporter:
  "fst (Fault_Handler None next e0) w r e = next w r e
   \<and> snd (Fault_Handler None next e0) = e0
   \<and> (Injector (opt f) = None \<longrightarrow> fst (Fault_Handler (Some f) next e0) w r e = next w r e)
   \<and> ChainedInjector_Handler None next w r e = next w r e
   \<and> ErrorInjector_Handler None next w r e = next w r e
   \<and> SlowInjector_Handler None next w r e = next w r e
   \<and> RejectInjector_Handler None next w r e = (Panicked ErrAbortHandler, w, e)
   \<and> ChainInjector_Handler None next w r e = (next w r e, next)
   \<and> RandomInjector_Handler None next w r e = next w r e
   \<and> ErrorInjector2_Handler None next w r e = next w r e
   \<and> SlowInjector2_Handler None next w r e
       = next w (updateRequestContextValue r ContextValueSlowInjector) e
   \<and> RejectInjector2_Handler None next w r e = (Panicked ErrAbortHandler, w, e)
   \<and> reportWithMessage None r msg e = e
   \<and> ChainInjector_Handler (Some (ci\<lparr>chain_reporter := None\<rparr>)) next w r e
       = ChainInjector_Handler (Some (ci\<lparr>chain_reporter := Some (\<lambda>r msg e. e)\<rparr>)) next w r e
   \<and> RandomInjector_Handler (Some (ri\<lparr>random_reporter := None\<rparr>)) next w r e
       = RandomInjector_Handler (Some (ri\<lparr>random_reporter := Some (\<lambda>r msg e. e)\<rparr>)) next w r e
   \<and> RejectInjector2_Handler (Some (rj\<lparr>reject_reporter := None\<rparr>)) next w r e
       = RejectInjector2_Handler (Some (rj\<lparr>reject_reporter := Some (\<lambda>r msg e. e)\<rparr>)) next w r e
   \<and> ErrorInjector2_Handler (Some (ei\<lparr>error_reporter := None\<rparr>)) next w r e
       = ErrorInjector2_Handler (Some (ei\<lparr>error_reporter := Some (\<lambda>r msg e. e)\<rparr>)) next w r e
   \<and> SlowInjector2_Handler (Some (si\<lparr>slow_reporter := None\<rparr>)) next w r e
       = SlowInjector2_Handler (Some (si\<lparr>slow_reporter := Some (\<lambda>r msg e. e)\<rparr>)) next w r e"
  using ChainInjector_nil_reporter [of ci "next" w r e]
    RandomInjector_nil_reporter [of ri "next" w r e] RejectInjector2_nil_reporter [of rj "next" w r e]
    ErrorInjector2_nil_reporter [of ei "next" w r e] SlowInjector2_nil_reporter [of si "next" w r e]
  by (simp add: Fault_Handler_None Fault_Handler_no_injector ChainedInjector_Handler_None
        ErrorInjector_Handler_None SlowInjector_Handler_None RejectInjector_Handler_eq
        ChainInjector_Handler_None RandomInjector_Handler_None ErrorInjector2_Handler_None
        SlowInjector2_Handler_None RejectInjector2_Handler_None reportWithMessage_None)

text \<open>
  At the gate without injector and the handler of the README on a fresh response: the
  request reaches the downstream handler, which answers 200. At the nil
  \<^verbatim>\<open>*SlowInjector\<close> of the reporter-aware revision and the downstream handler that looks
  for a tag: it is run, and finds the request tagged, where the request it would have
  been given directly is not.
\<close>

theorem nil_receivers_and_nil_reporter_witness:
  "Injector (opt gate_no_injector) = None
   \<and> fst (Fault_Handler (Some gate_no_injector) mainHandler env0) resp0 req0 env0
       = (Returned, \<lparr>header = [], status = Some 200, body = ''Hello World''\<rparr>, env0)
   \<and> SlowInjector_Handler None mainHandler resp0 req0 env0
       = (Returned, \<lparr>header = [], status = Some 200, body = ''Hello World''\<rparr>, env0)
   \<and> ErrorInjector_Handler None mainHandler resp0 req0 env0
       = (Returned, \<lparr>header = [], status = Some 200, body = ''Hello World''\<rparr>, env0)
   \<and> SlowInjector2_Handler None tag_probe resp0 req0 env0
       = (Returned, resp0, env0\<lparr>trace := [Served ''tagged'']\<rparr>)
   \<and> tag_probe resp0 req0 env0 = (Returned, resp0, env0\<lparr>trace := [Served ''untagged'']\<rparr>)"
proof -
  have n: "Injector (opt gate_no_injector) = None" by (simp add: gate_no_injector_def)
  have t: "tag_probe resp0 (updateRequestContextValue req0 ContextValueSlowInjector) env0
      = (Returned, resp0, env0\<lparr>trace := [Served ''tagged'']\<rparr>)"
    "tag_probe resp0 req0 env0 = (Returned, resp0, env0\<lparr>trace := [Served ''untagged'']\<rparr>)"
    by (simp_all add: tag_probe_def updateRequestContextValue_def req0_def env0_def)
  have a: "Injector (opt gate_no_injector) = None
   \<and> fst (Fault_Handler (Some gate_no_injector) mainHandler env0) resp0 req0 env0
       = (Returned, \<lparr>header = [], status = Some 200, body = ''Hello World''\<rparr>, env0)
   \<and> SlowInjector_Handler None mainHandler resp0 req0 env0
       = (Returned, \<lparr>header = [], status = Some 200, body = ''Hello World''\<rparr>, env0)
   \<and> ErrorInjector_Handler None mainHandler resp0 req0 env0
       = (Returned, \<lparr>header = [], status = Some 200, body = ''Hello World''\<rparr>, env0)"
    using n nil_receivers_and_nil_reporter [of mainHandler env0 resp0 req0 env0 gate_no_injector]
    by (simp add: mainHandler_fresh)
  have b: "SlowInjector2_Handler None tag_probe resp0 req0 env0
       = (Returned, resp0, env0\<lparr>trace := [Served ''tagged'']\<rparr>)"
    using nil_receivers_and_nil_reporter [of tag_probe env0 resp0 req0 env0 gate_no_injector] t(1)
    by simp
  show ?thesis using a b t(2) by simp
qed

subsection \<open>C4: the order of a chain\<close>

text \<open>
  C4: for every list of sub-injectors none of which terminates early, the handler of the
  chain runs their behaviours in the order of the list and then the downstream handler,
  because the loop applies the wrap functions from the last to the first. The
  constructor keeps the \<^verbatim>\<open>Handler\<close> methods in the order given; the handler of the
  chain is the first wrap function applied to the second applied to ... applied to
  \<open>next\<close>; so when each sub-injector does its effect and delegates, the effects happen
  first to last (\<open>fold\<close> runs the head of the list first) and \<open>next\<close> sees the result;
  three recorders A, B, C and a recording downstream handler leave the trace A, B, C,
  downstream.
\<close>

theorem ChainedInjector_runs_in_list_order:
  "NewChainedInjector (Some (map Some injs)) = Inr (Inr \<lparr>middlewares = injs\<rparr>)
   \<and> ChainedInjector_Handler (Some \<lparr>middlewares = ms\<rparr>) next = foldr (\<lambda>m h. m h) ms next
   \<and> ChainedInjector_Handler (Some \<lparr>middlewares = map delegating acts\<rparr>) next w r e
       = (case fold (\<lambda>a we. a we) acts (w, e) of (w', e') \<Rightarrow> next w' r e')
   \<and> ChainedInjector_Handler
         (Some \<lparr>middlewares = [delegating (record_visit ''A''), delegating (record_visit ''B''),
                               delegating (record_visit ''C'')]\<rparr>)
         (record_serve ''downstream'') w r e
       = (Returned, w,
          e\<lparr>trace := trace e @ [Served ''A'', Served ''B'', Served ''C'', Served ''downstream'']\<rparr>)"
  by (simp add: NewChainedInjector_def method_values_Some ChainedInjector_Handler_Some
        foldr_delegating delegating_apply record_visit_def record_serve_def)

subsection \<open>C5: what the constructor of the gate accepts\<close>

text \<open>
  C5 says that \<^verbatim>\<open>NewFault\<close> returns an error exactly when the injector is nil or the
  percentage lies outside \<open>[0.0, 1.0]\<close>, and that every gate it constructs has
  \<open>0.0 \<le> p \<le> 1.0\<close>. The guard is \<^verbatim>\<open>p < 0 || p > 1.0\<close>, and both comparisons are false
  for NaN: the theorem runs the constructor on the percentage NaN, which it accepts,
  though NaN is not between 0 and 1. On every other percentage the constructor does
  what C5 says (\<open>NewFault_unless_NaN\<close>, \<open>NewFault_Inr\<close>, \<open>NewFault_examples\<close>).
\<close>

theorem NewFault_accepts_NaN:
  "NewFault \<lparr>Enabled = True, Injector = Some (RejectInjector_Handler None), PercentOfRequests = NaN\<rparr>
     = Inr \<lparr>opt = \<lparr>Enabled = True, Injector = Some (RejectInjector_Handler None), PercentOfRequests = NaN\<rparr>\<rparr>
   \<and> \<not> (f32_le (Fin 0) NaN \<and> f32_le NaN (Fin 1))"
  by (simp add: NewFault_def)

subsection \<open>C6: the error injector\<close>

text \<open>
  C6: \<^verbatim>\<open>NewErrorInjector(code)\<close> fails with \<^verbatim>\<open>ErrInvalidHTTPCode\<close> exactly when the
  code has no canonical reason phrase; for a code that has one it returns the injector
  that holds the code and the phrase, and the handler of that injector returns after
  \<^verbatim>\<open>http.Error\<close> with the phrase and the code, whatever the downstream handler is and
  without touching the environment, so the downstream handler is not run; on a response
  whose status has not been written, the status is then the code and the body has grown
  by the phrase and a newline.
\<close>

theorem ErrorInjector_constructs_and_responds:
  "(NewErrorInjector code = Inl ErrInvalidHTTPCode) = (StatusText code = [])
   \<and> (StatusText code \<noteq> [] \<longrightarrow>
        NewErrorInjector code = Inr \<lparr>statusCode = code, statusText = StatusText code\<rparr>
        \<and> ErrorInjector_Handler (Some \<lparr>statusCode = code, statusText = StatusText code\<rparr>) next w r e
            = (Returned, http_Error w (StatusText code) code, e)
        \<and> (status w = None \<longrightarrow>
             status (http_Error w (StatusText code) code) = Some code
             \<and> body (http_Error w (StatusText code) code) = body w @ StatusText code @ [CHR 0x0A]))"
  by (simp add: NewErrorInjector_def ErrorInjector_Handler_def HandlerFunc_eq Let_def http_Error_fresh)

text \<open>
  At 999, which has no phrase, and at 503 with the handler of the README on a fresh
  response.
\<close>

theorem ErrorInjector_constructs_and_responds_witness:
  "NewErrorInjector 999 = Inl ErrInvalidHTTPCode
   \<and> StatusText 503 \<noteq> []
   \<and> NewErrorInjector 503 = Inr \<lparr>statusCode = 503, statusText = ''Service Unavailable''\<rparr>
   \<and> ErrorInjector_Handler (Some \<lparr>statusCode = 503, statusText = ''Service Unavailable''\<rparr>)
         mainHandler resp0 req0 env0
       = (Returned, http_Error resp0 ''Service Unavailable'' 503, env0)
   \<and> status resp0 = None
   \<and> status (http_Error resp0 ''Service Unavailable'' 503) = Some 503
   \<and> body (http_Error resp0 ''Service Unavailable'' 503) = ''Service Unavailable'' @ [CHR 0x0A]"
proof -
  have s: "status resp0 = None" and b: "body resp0 = []" by (simp_all add: resp0_def)
  show ?thesis
    using ErrorInjector_constructs_and_responds [of 999]
      ErrorInjector_constructs_and_responds [of 503 mainHandler resp0 req0 env0] s b
    by (simp add: StatusText_503 StatusText_999)
qed

subsection \<open>C7: the random injector\<close>

text \<open>
  C7: over an empty list the handler of a \<^verbatim>\<open>RandomInjector\<close> is the downstream handler.
  Over a non-empty list of \<open>N\<close> wrap functions it reports, tags the request, asks the
  pluggable random source once for an index below \<open>N\<close>, and when the source answers
  \<open>k\<close> in \<open>[0, N)\<close> the request is handled by the \<open>k\<close>-th wrap function applied to
  \<open>next\<close> and by nothing else. (That the source of the constructor, \<^verbatim>\<open>rand.Intn\<close>,
  answers in range is \<open>rand_Intn_in_range\<close>.)
\<close>

theorem RandomInjector_runs_the_drawn_one:
  "(random_middlewares ri = [] \<longrightarrow> RandomInjector_Handler (Some ri) next w r e = next w r e)
   \<and> (random_middlewares ri \<noteq> [] \<and> randF ri = Some rf
        \<and> rf (int (length (random_middlewares ri)))
             (reportWithMessage (random_reporter ri) r ''random injector: starting'' e) = (Inr k, e2)
        \<and> 0 \<le> k \<and> k < int (length (random_middlewares ri))
      \<longrightarrow> RandomInjector_Handler (Some ri) next w r e
            = (random_middlewares ri ! nat k) next w
                (updateRequestContextValue r ContextValueRandomInjector) e2)"
  by (simp add: RandomInjector_Handler_def HandlerFunc_eq ServeHTTP_eq Let_def)

text \<open>
  Over the recorders A, B, C with a source that answers 1: the trace holds the report,
  B and the downstream handler, neither A nor C. Over the empty list: the downstream
  handler.
\<close>

theorem RandomInjector_runs_the_drawn_one_witness:
  "random_middlewares random_abc \<noteq> [] \<and> randF random_abc = Some pick_second
   \<and> pick_second (int (length (random_middlewares random_abc)))
        (reportWithMessage (random_reporter random_abc) req0 ''random injector: starting'' env0)
       = (Inr 1, env0\<lparr>trace := [Reported ''random injector: starting'']\<rparr>)
   \<and> (0::int) \<le> 1 \<and> 1 < int (length (random_middlewares random_abc))
   \<and> RandomInjector_Handler (Some random_abc) (record_serve ''downstream'') resp0 req0 env0
       = (Returned, resp0,
          env0\<lparr>trace := [Reported ''random injector: starting'', Served ''B'', Served ''downstream'']\<rparr>)
   \<and> random_middlewares (random_abc\<lparr>random_middlewares := []\<rparr>) = []
   \<and> RandomInjector_Handler (Some (random_abc\<lparr>random_middlewares := []\<rparr>)) mainHandler resp0 req0 env0
       = mainHandler resp0 req0 env0"
proof -
  have h: "pick_second (int (length (random_middlewares random_abc)))
        (reportWithMessage (random_reporter random_abc) req0 ''random injector: starting'' env0)
       = (Inr 1, env0\<lparr>trace := [Reported ''random injector: starting'']\<rparr>)"
    by (simp add: pick_second_def random_abc_def reportWithMessage_def record_report_def env0_def)
  have m: "random_middlewares random_abc \<noteq> []" "randF random_abc = Some pick_second"
    "1 < int (length (random_middlewares random_abc))"
    by (simp_all add: random_abc_def)
  from RandomInjector_runs_the_drawn_one [of random_abc "record_serve ''downstream''" resp0 req0 env0
        pick_second 1 "env0\<lparr>trace := [Reported ''random injector: starting'']\<rparr>"] h m
  have a: "RandomInjector_Handler (Some random_abc) (record_serve ''downstream'') resp0 req0 env0
       = (random_middlewares random_abc ! nat 1) (record_serve ''downstream'') resp0
           (updateRequestContextValue req0 ContextValueRandomInjector)
           (env0\<lparr>trace := [Reported ''random injector: starting'']\<rparr>)"
    by simp
  have b: "(random_middlewares random_abc ! nat 1) (record_serve ''downstream'') resp0
           (updateRequestContextValue req0 ContextValueRandomInjector)
           (env0\<lparr>trace := [Reported ''random injector: starting'']\<rparr>)
        = (Returned, resp0,
          env0\<lparr>trace := [Reported ''random injector: starting'', Served ''B'', Served ''downstream'']\<rparr>)"
    by (simp add: random_abc_def delegating_apply record_visit_def record_serve_def env0_def)
  from RandomInjector_runs_the_drawn_one [of "random_abc\<lparr>random_middlewares := []\<rparr>" mainHandler resp0 req0 env0]
  have c: "RandomInjector_Handler (Some (random_abc\<lparr>random_middlewares := []\<rparr>)) mainHandler resp0 req0 env0
       = mainHandler resp0 req0 env0"
    by simp
  show ?thesis using h m a b c by simp
qed

subsection \<open>C8: the reject injector\<close>

text \<open>
  C8: for every receiver, downstream handler, response, request and environment, the
  handler of the \<^verbatim>\<open>RejectInjector\<close> panics with \<^verbatim>\<open>http.ErrAbortHandler\<close> and leaves the
  response and the environment exactly as they were: no byte is written and the
  downstream handler is not run. The reporter-aware revision ends in the same panic with
  the response untouched, and its result does not depend on the downstream handler. The
  outcome is not a return, and its panic value is none of the others.
\<close>

theorem RejectInjector_aborts:
  "RejectInjector_Handler i next w r e = (Panicked ErrAbortHandler, w, e)
   \<and> fst (RejectInjector2_Handler i2 next w r e) = Panicked ErrAbortHandler
   \<and> fst (snd (RejectInjector2_Handler i2 next w r e)) = w
   \<and> RejectInjector2_Handler i2 next w r e = RejectInjector2_Handler i2 next' w r e
   \<and> Panicked ErrAbortHandler \<noteq> Returned
   \<and> ErrAbortHandler \<noteq> NilPointerDereference \<and> ErrAbortHandler \<noteq> IndexOutOfRange
   \<and> ErrAbortHandler \<noteq> IntnInvalidArgument \<and> ErrAbortHandler \<noteq> OtherPanic s"
  by (simp add: RejectInjector_Handler_def RejectInjector2_Handler_def HandlerFunc_eq Let_def)

subsection \<open>C9: the slow injector\<close>

text \<open>
  C9: \<^verbatim>\<open>NewSlowInjector(D)\<close> stores \<open>D\<close> and \<^verbatim>\<open>time.Sleep\<close>. For every delay function
  \<open>sl\<close> in the \<^verbatim>\<open>sleep\<close> field, the handler is the downstream handler run in the
  environment that one call \<open>sl D\<close> leaves: the delay function is called once, with
  \<open>D\<close>, before the downstream handler, which is always run. With the recording delay
  function and a recording downstream handler the trace grows by the sleep of \<open>D\<close> and
  then the downstream handler. The reporter-aware revision reports first, then sleeps
  \<open>D\<close> once, then runs the downstream handler on the tagged request.
\<close>

theorem SlowInjector_sleeps_then_delegates:
  "NewSlowInjector D = Inr \<lparr>duration = D, sleep = Some time_Sleep\<rparr>
   \<and> SlowInjector_Handler (Some \<lparr>duration = D, sleep = Some sl\<rparr>) next w r e = next w r (sl D e)
   \<and> SlowInjector_Handler (Some \<lparr>duration = D, sleep = Some record_sleep\<rparr>) (record_serve name) w r e
       = (Returned, w, e\<lparr>trace := trace e @ [Slept D, Served name]\<rparr>)
   \<and> SlowInjector2_Handler (Some \<lparr>slow_duration = D, slow_reporter = rp, slow_sleep = Some sl\<rparr>) next w r e
       = next w (updateRequestContextValue r ContextValueSlowInjector)
           (sl D (reportWithMessage rp r ''slow injector: starting'' e))"
  by (simp add: NewSlowInjector_def SlowInjector_Handler_def SlowInjector2_Handler_def
        HandlerFunc_eq ServeHTTP_eq record_sleep_def record_serve_def)

subsection \<open>C10: the disabled gate\<close>

text \<open>
  C10: for every gate with \<^verbatim>\<open>Enabled = false\<close>, whatever its injector and probability,
  and every downstream handler, \<^verbatim>\<open>Handler(next)\<close> draws no sample and returns a handler
  with the outcome, response and environment of \<open>next\<close> on every request.
\<close>

theorem Fault_Handler_disabled_is_next:
  "\<not> Enabled (opt f) \<Longrightarrow>
   fst (Fault_Handler (Some f) next e) w r e' = next w r e' \<and> snd (Fault_Handler (Some f) next e) = e"
  by (simp add: Fault_Handler_def HandlerFunc_eq ServeHTTP_eq Let_def)

text \<open>
  At the disabled gate over the reject injector with probability 1 and the handler of
  the README.
\<close>

theorem Fault_Handler_disabled_is_next_witness:
  "\<not> Enabled (opt gate_off)
   \<and> fst (Fault_Handler (Some gate_off) mainHandler env0) resp0 req0 env0
       = (Returned, \<lparr>header = [], status = Some 200, body = ''Hello World''\<rparr>, env0)
   \<and> snd (Fault_Handler (Some gate_off) mainHandler env0) = env0"
proof -
  have d: "\<not> Enabled (opt gate_off)" by (simp add: gate_off_def)
  show ?thesis
    using d Fault_Handler_disabled_is_next [OF d, of mainHandler env0 resp0 req0 env0]
    by (simp add: mainHandler_fresh)
qed

end
